theory Spec2Isabelle
  imports Main "HOL-Library.Sublist" "HOL-Library.Char_ord" "HOL-Library.List_Lexorder"
begin

section \<open>JavaScript values\<close>

text \<open>
  The service is typed in TypeScript, but the types are erased at run time: a field that
  \<^verbatim>\<open>JSON.parse\<close> did not deliver is \<^verbatim>\<open>undefined\<close>, whatever the interface says. The
  record loader and the filters are therefore modelled over untyped values. Numbers are
  kept abstract (\<open>'n\<close>): the service only tests them for truthiness and converts them to
  strings. An object is the list of its own enumerable properties in enumeration order,
  with distinct keys.
\<close>

datatype 'n jsval =
    JUndefined
  | JNull
  | JBool bool
  | JNum 'n
  | JStr string
  | JArr "'n jsval list"
  | JObj "(string \<times> 'n jsval) list"

datatype error = ConfigurationError | DownloadError | SyntaxError | TypeError

text \<open>
  What the service uses of the JavaScript run time without defining it: \<^verbatim>\<open>JSON.parse\<close>
  (\<open>None\<close> is a thrown SyntaxError), the conversion of a number, array or object to a
  string (\<open>None\<close> is a thrown TypeError), \<^verbatim>\<open>new Date(v).getTime()\<close> in milliseconds
  (\<open>None\<close> is NaN) and the test whether a number is zero or NaN.
\<close>

record 'n runtime =
  JSON_parse :: "string \<Rightarrow> 'n jsval option"
  ToString :: "'n jsval \<Rightarrow> string option"
  Date_getTime :: "'n jsval \<Rightarrow> int option"
  num_falsy :: "'n \<Rightarrow> bool"

fun truthy :: "'n runtime \<Rightarrow> 'n jsval \<Rightarrow> bool" where
  "truthy env JUndefined = False"
| "truthy env JNull = False"
| "truthy env (JBool b) = b"
| "truthy env (JNum n) = (\<not> num_falsy env n)"
| "truthy env (JStr s) = (s \<noteq> [])"
| "truthy env (JArr vs) = True"
| "truthy env (JObj kvs) = True"

text \<open>\<^verbatim>\<open>a || d\<close>\<close>

definition or_else :: "'n runtime \<Rightarrow> 'n jsval \<Rightarrow> 'n jsval \<Rightarrow> 'n jsval" where
  "or_else env a d = (if truthy env a then a else d)"

text \<open>
  \<^verbatim>\<open>v.k\<close> for the property names the service reads (\<^verbatim>\<open>Id\<close>, \<^verbatim>\<open>Headers\<close>,
  \<^verbatim>\<open>conversation\<close>, ...): none of them is a property of a prototype, so only an object's
  own properties answer; reading a property of \<^verbatim>\<open>null\<close> or \<^verbatim>\<open>undefined\<close> throws.
\<close>

fun get_prop :: "'n jsval \<Rightarrow> string \<Rightarrow> error + 'n jsval" where
  "get_prop JUndefined k = Inl TypeError"
| "get_prop JNull k = Inl TypeError"
| "get_prop (JObj kvs) k = Inr (case map_of kvs k of None \<Rightarrow> JUndefined | Some v \<Rightarrow> v)"
| "get_prop v k = Inr JUndefined"

text \<open>\<^verbatim>\<open>v?.k\<close>\<close>

fun get_prop_opt :: "'n jsval \<Rightarrow> string \<Rightarrow> 'n jsval" where
  "get_prop_opt (JObj kvs) k = (case map_of kvs k of None \<Rightarrow> JUndefined | Some v \<Rightarrow> v)"
| "get_prop_opt v k = JUndefined"

text \<open>\<^verbatim>\<open>Object.values(v)\<close>\<close>

fun Object_values :: "'n jsval \<Rightarrow> error + 'n jsval list" where
  "Object_values JUndefined = Inl TypeError"
| "Object_values JNull = Inl TypeError"
| "Object_values (JObj kvs) = Inr (map snd kvs)"
| "Object_values (JArr vs) = Inr vs"
| "Object_values (JStr s) = Inr (map (\<lambda>c. JStr [c]) s)"
| "Object_values (JBool b) = Inr []"
| "Object_values (JNum n) = Inr []"

text \<open>\<^verbatim>\<open>String(v)\<close>\<close>

fun String_of :: "'n runtime \<Rightarrow> 'n jsval \<Rightarrow> string option" where
  "String_of env (JStr s) = Some s"
| "String_of env JUndefined = Some ''undefined''"
| "String_of env JNull = Some ''null''"
| "String_of env (JBool b) = Some (if b then ''true'' else ''false'')"
| "String_of env v = ToString env v"

subsection \<open>Strings\<close>

text \<open>
  Strings are lists of 8-bit characters; the case mappings act on the ASCII letters and
  leave every other character alone.
\<close>

definition lower_char :: "char \<Rightarrow> char" where
  "lower_char c =
     (case map_of (zip ''ABCDEFGHIJKLMNOPQRSTUVWXYZ'' ''abcdefghijklmnopqrstuvwxyz'') c of
        None \<Rightarrow> c | Some d \<Rightarrow> d)"

definition upper_char :: "char \<Rightarrow> char" where
  "upper_char c =
     (case map_of (zip ''abcdefghijklmnopqrstuvwxyz'' ''ABCDEFGHIJKLMNOPQRSTUVWXYZ'') c of
        None \<Rightarrow> c | Some d \<Rightarrow> d)"

text \<open>\<^verbatim>\<open>v.toLowerCase()\<close> and \<^verbatim>\<open>v.toUpperCase()\<close>: only a string has the method.\<close>

fun toLowerCase :: "'n jsval \<Rightarrow> error + string" where
  "toLowerCase (JStr s) = Inr (map lower_char s)"
| "toLowerCase v = Inl TypeError"

fun toUpperCase :: "'n jsval \<Rightarrow> error + string" where
  "toUpperCase (JStr s) = Inr (map upper_char s)"
| "toUpperCase v = Inl TypeError"

text \<open>\<^verbatim>\<open>t.includes(s)\<close>: \<open>s\<close> occurs in \<open>t\<close> at some position.\<close>

fun includes_str :: "string \<Rightarrow> string \<Rightarrow> bool" where
  "includes_str [] s = (s = [])"
| "includes_str (c # t) s = (prefix s (c # t) \<or> includes_str t s)"

text \<open>\<^verbatim>\<open>t.endsWith(s)\<close>\<close>

definition endsWith :: "string \<Rightarrow> string \<Rightarrow> bool" where
  "endsWith t s = suffix s t"

section \<open>Records and the record loader\<close>

record 'n WebhookRequest =
  id_w :: "'n jsval"
  receivedAt :: "'n jsval"
  method_w :: "'n jsval"
  path :: "'n jsval"
  headers :: "'n jsval"
  queryParameters :: "'n jsval"
  rawBody :: "'n jsval"
  contentType :: "'n jsval"
  sourceIp :: "'n jsval"

text \<open>
  \<^verbatim>\<open>transformWebhook\<close> reads the capitalised field names only. Reading \<^verbatim>\<open>raw.Id\<close>
  throws when \<^verbatim>\<open>raw\<close> is \<^verbatim>\<open>null\<close> (the JSON text \<^verbatim>\<open>null\<close>).
\<close>

definition transformWebhook :: "'n runtime \<Rightarrow> 'n jsval \<Rightarrow> error + 'n WebhookRequest" where
  "transformWebhook env raw =
     (case get_prop raw ''Id'' of
        Inl e \<Rightarrow> Inl e
      | Inr i \<Rightarrow>
          Inr \<lparr> id_w = i,
                receivedAt = get_prop_opt raw ''ReceivedAt'',
                method_w = get_prop_opt raw ''Method'',
                path = get_prop_opt raw ''Path'',
                headers = or_else env (get_prop_opt raw ''Headers'') (JObj []),
                queryParameters = or_else env (get_prop_opt raw ''QueryParameters'') (JObj []),
                rawBody = or_else env (get_prop_opt raw ''RawBody'') (JStr []),
                contentType = or_else env (get_prop_opt raw ''ContentType'') (JStr []),
                sourceIp = or_else env (get_prop_opt raw ''SourceIp'') (JStr []) \<rparr>)"

section \<open>The blob container\<close>

text \<open>
  A listing entry together with what the store answers for its key: the bytes a download
  delivers (or a failed download) and whether a delete of the key succeeds.
\<close>

datatype download = Failed | Content string

record blob =
  name :: string
  body :: download
  delete_ok :: bool

record container =
  connectionString :: string
  blobs :: "blob list"

definition getContainerClient :: "container \<Rightarrow> error + container" where
  "getContainerClient c =
     (if connectionString c = [] then Inl ConfigurationError else Inr c)"

text \<open>\<^verbatim>\<open>container.listBlobsFlat(options)\<close>: the store applies the prefix.\<close>

definition listBlobsFlat :: "container \<Rightarrow> string option \<Rightarrow> blob list" where
  "listBlobsFlat c pfx =
     (case pfx of None \<Rightarrow> blobs c | Some p \<Rightarrow> filter (\<lambda>b. prefix p (name b)) (blobs c))"

definition listBlobs :: "container \<Rightarrow> string option \<Rightarrow> error + blob list" where
  "listBlobs c pfx =
     (case getContainerClient c of
        Inl e \<Rightarrow> Inl e
      | Inr cl \<Rightarrow>
          Inr (filter (\<lambda>b. endsWith (name b) ''.json'')
                (listBlobsFlat cl (case pfx of None \<Rightarrow> None
                                   | Some p \<Rightarrow> if p = [] then None else Some p))))"

definition readBlobAsJson :: "'n runtime \<Rightarrow> blob \<Rightarrow> error + 'n jsval" where
  "readBlobAsJson env b =
     (case body b of
        Failed \<Rightarrow> Inl DownloadError
      | Content s \<Rightarrow> (case JSON_parse env s of None \<Rightarrow> Inl SyntaxError | Some v \<Rightarrow> Inr v))"

text \<open>The body of the \<^verbatim>\<open>try\<close> block that loads one record.\<close>

definition load :: "'n runtime \<Rightarrow> blob \<Rightarrow> error + 'n WebhookRequest" where
  "load env b =
     (case readBlobAsJson env b of Inl e \<Rightarrow> Inl e | Inr raw \<Rightarrow> transformWebhook env raw)"

section \<open>Listing with filters and pagination\<close>

text \<open>
  \<^verbatim>\<open>page\<close> and \<^verbatim>\<open>limit\<close> come from \<^verbatim>\<open>parseInt\<close>: an integer or NaN.
\<close>

datatype jsnum = NaN | Num int

fun num_sub :: "jsnum \<Rightarrow> jsnum \<Rightarrow> jsnum" where
  "num_sub (Num a) (Num b) = Num (a - b)"
| "num_sub a b = NaN"

fun num_mul :: "jsnum \<Rightarrow> jsnum \<Rightarrow> jsnum" where
  "num_mul (Num a) (Num b) = Num (a * b)"
| "num_mul a b = NaN"

fun num_add :: "jsnum \<Rightarrow> jsnum \<Rightarrow> jsnum" where
  "num_add (Num a) (Num b) = Num (a + b)"
| "num_add a b = NaN"

text \<open>
  \<^verbatim>\<open>xs.slice(start, end)\<close>: NaN counts as 0, a negative bound counts from the end, and
  both bounds are clamped to the length.
\<close>

fun relative_index :: "nat \<Rightarrow> jsnum \<Rightarrow> nat" where
  "relative_index len NaN = 0"
| "relative_index len (Num i) =
     (if i < 0 then nat (max (int len + i) 0) else min (nat i) len)"

definition slice :: "'a list \<Rightarrow> jsnum \<Rightarrow> jsnum \<Rightarrow> 'a list" where
  "slice xs start fin =
     (let k = relative_index (length xs) start;
          final = relative_index (length xs) fin
      in take (final - k) (drop k xs))"

record ListWebhooksParams =
  date_p :: "string option"
  page_p :: "jsnum option"
  limit_p :: "jsnum option"
  method_p :: "string option"
  sourceIp_p :: "string option"
  search_p :: "string option"
  conversationId_p :: "string option"

record 'n ListWebhooksResult =
  data_r :: "'n WebhookRequest list"
  total_r :: nat
  page_r :: jsnum
  limit_r :: jsnum

text \<open>\<^verbatim>\<open>if (param)\<close>: a filter is applied when its parameter is a non-empty string.\<close>

definition supplied :: "string option \<Rightarrow> string option" where
  "supplied p = (case p of None \<Rightarrow> None | Some s \<Rightarrow> if s = [] then None else Some s)"

text \<open>
  \<^verbatim>\<open>xs.filter(p)\<close> and \<^verbatim>\<open>xs.some(p)\<close> with a callback that may throw: the first throw
  ends the call.
\<close>

fun filter_js :: "('a \<Rightarrow> error + bool) \<Rightarrow> 'a list \<Rightarrow> error + 'a list" where
  "filter_js p [] = Inr []"
| "filter_js p (x # xs) =
     (case p x of
        Inl e \<Rightarrow> Inl e
      | Inr b \<Rightarrow>
          (case filter_js p xs of
             Inl e \<Rightarrow> Inl e
           | Inr ys \<Rightarrow> Inr (if b then x # ys else ys)))"

fun some_js :: "('a \<Rightarrow> error + bool) \<Rightarrow> 'a list \<Rightarrow> error + bool" where
  "some_js p [] = Inr False"
| "some_js p (x # xs) =
     (case p x of
        Inl e \<Rightarrow> Inl e
      | Inr b \<Rightarrow> if b then Inr True else some_js p xs)"

text \<open>\<^verbatim>\<open>a || b\<close> on conditions that may throw: \<open>b\<close> is not evaluated when \<open>a\<close> holds.\<close>

definition or_js :: "error + bool \<Rightarrow> error + bool \<Rightarrow> error + bool" where
  "or_js a b = (case a of Inl e \<Rightarrow> Inl e | Inr x \<Rightarrow> if x then Inr True else b)"

text \<open>\<^verbatim>\<open>w.method.toUpperCase() === method.toUpperCase()\<close>\<close>

definition method_matches :: "string \<Rightarrow> 'n WebhookRequest \<Rightarrow> error + bool" where
  "method_matches m w =
     (case toUpperCase (method_w w) of
        Inl e \<Rightarrow> Inl e
      | Inr u \<Rightarrow> Inr (u = map upper_char m))"

text \<open>\<^verbatim>\<open>w.sourceIp === sourceIp\<close>\<close>

definition sourceIp_matches :: "string \<Rightarrow> 'n WebhookRequest \<Rightarrow> error + bool" where
  "sourceIp_matches ip w = Inr (sourceIp w = JStr ip)"

text \<open>\<^verbatim>\<open>v.toLowerCase().includes(searchLower)\<close>\<close>

definition lower_includes :: "string \<Rightarrow> 'n jsval \<Rightarrow> error + bool" where
  "lower_includes searchLower v =
     (case toLowerCase v of
        Inl e \<Rightarrow> Inl e
      | Inr t \<Rightarrow> Inr (includes_str t searchLower))"

text \<open>\<^verbatim>\<open>Object.values(o).some(v => v.toLowerCase().includes(searchLower))\<close>\<close>

definition values_include :: "string \<Rightarrow> 'n jsval \<Rightarrow> error + bool" where
  "values_include searchLower obj =
     (case Object_values obj of
        Inl e \<Rightarrow> Inl e
      | Inr vs \<Rightarrow> some_js (lower_includes searchLower) vs)"

definition search_matches :: "string \<Rightarrow> 'n WebhookRequest \<Rightarrow> error + bool" where
  "search_matches search w =
     (let searchLower = map lower_char search in
        or_js (lower_includes searchLower (id_w w))
       (or_js (lower_includes searchLower (path w))
       (or_js (lower_includes searchLower (rawBody w))
       (or_js (lower_includes searchLower (contentType w))
       (or_js (values_include searchLower (headers w))
              (values_include searchLower (queryParameters w)))))))"

text \<open>
  The conversation filter. Everything after the first test runs inside \<^verbatim>\<open>try\<close>; a throw
  there makes the callback return \<^verbatim>\<open>false\<close>. \<^verbatim>\<open>JSON.parse\<close> converts its argument to
  a string first.
\<close>

definition conversation_matches :: "'n runtime \<Rightarrow> string \<Rightarrow> 'n WebhookRequest \<Rightarrow> bool" where
  "conversation_matches env conversationId w =
     (let convIdLower = map lower_char conversationId in
      if \<not> truthy env (rawBody w) then False
      else
        (case String_of env (rawBody w) of
           None \<Rightarrow> False
         | Some text \<Rightarrow>
             (case JSON_parse env text of
                None \<Rightarrow> False
              | Some parsed \<Rightarrow>
                  (let convId = get_prop_opt (get_prop_opt parsed ''conversation'') ''id'' in
                   if \<not> truthy env convId then False
                   else
                     (case String_of env convId of
                        None \<Rightarrow> False
                      | Some t \<Rightarrow> includes_str (map lower_char t) convIdLower)))))"

text \<open>
  The comparator of the sort: \<^verbatim>\<open>new Date(b.receivedAt).getTime() - new
  Date(a.receivedAt).getTime()\<close>, NaN (\<open>None\<close>) when either time is NaN.
\<close>

definition compare_receivedAt ::
  "'n runtime \<Rightarrow> 'n WebhookRequest \<Rightarrow> 'n WebhookRequest \<Rightarrow> int option" where
  "compare_receivedAt env a b =
     (case Date_getTime env (receivedAt b) of
        None \<Rightarrow> None
      | Some tb \<Rightarrow>
          (case Date_getTime env (receivedAt a) of
             None \<Rightarrow> None
           | Some ta \<Rightarrow> Some (tb - ta)))"

text \<open>
  \<^verbatim>\<open>xs.sort(cmp)\<close> is a stable sort that reads a NaN from the comparator as 0. It is
  modelled as the stable insertion sort: an element moves behind another only when the
  comparator is positive. When the comparator orders the elements consistently (no time
  is NaN) every stable sort has this result; on two elements whose comparison is NaN the
  run time keeps the order, as the model does.
\<close>

definition goes_after :: "('a \<Rightarrow> 'a \<Rightarrow> int option) \<Rightarrow> 'a \<Rightarrow> 'a \<Rightarrow> bool" where
  "goes_after cmp x y = (case cmp x y of None \<Rightarrow> False | Some v \<Rightarrow> 0 < v)"

fun insert_js :: "('a \<Rightarrow> 'a \<Rightarrow> int option) \<Rightarrow> 'a \<Rightarrow> 'a list \<Rightarrow> 'a list" where
  "insert_js cmp x [] = [x]"
| "insert_js cmp x (y # ys) =
     (if goes_after cmp x y then y # insert_js cmp x ys else x # y # ys)"

fun sort_js :: "('a \<Rightarrow> 'a \<Rightarrow> int option) \<Rightarrow> 'a list \<Rightarrow> 'a list" where
  "sort_js cmp [] = []"
| "sort_js cmp (x # xs) = insert_js cmp x (sort_js cmp xs)"

text \<open>The loop that reads all webhook data: a blob that fails to load is skipped.\<close>

fun loadAll :: "'n runtime \<Rightarrow> blob list \<Rightarrow> 'n WebhookRequest list" where
  "loadAll env [] = []"
| "loadAll env (b # bs) =
     (case load env b of
        Inl e \<Rightarrow> loadAll env bs
      | Inr w \<Rightarrow> w # loadAll env bs)"

text \<open>One \<^verbatim>\<open>if (param) { filtered = filtered.filter(...) }\<close> step.\<close>

definition filter_if ::
  "string option \<Rightarrow> (string \<Rightarrow> 'a \<Rightarrow> error + bool) \<Rightarrow> 'a list \<Rightarrow> error + 'a list" where
  "filter_if param p xs =
     (case supplied param of None \<Rightarrow> Inr xs | Some v \<Rightarrow> filter_js (p v) xs)"

definition applyFilters ::
  "'n runtime \<Rightarrow> ListWebhooksParams \<Rightarrow> 'n WebhookRequest list \<Rightarrow> error + 'n WebhookRequest list" where
  "applyFilters env params webhooks =
     (case filter_if (method_p params) method_matches webhooks of
        Inl e \<Rightarrow> Inl e
      | Inr f1 \<Rightarrow>
     (case filter_if (sourceIp_p params) sourceIp_matches f1 of
        Inl e \<Rightarrow> Inl e
      | Inr f2 \<Rightarrow>
     (case filter_if (search_p params) search_matches f2 of
        Inl e \<Rightarrow> Inl e
      | Inr f3 \<Rightarrow>
          filter_if (conversationId_p params)
            (\<lambda>cid w. Inr (conversation_matches env cid w)) f3)))"

text \<open>The list that is paginated: loaded, filtered and sorted.\<close>

definition sortedFiltered ::
  "'n runtime \<Rightarrow> ListWebhooksParams \<Rightarrow> container \<Rightarrow> error + 'n WebhookRequest list" where
  "sortedFiltered env params c =
     (case listBlobs c (case supplied (date_p params) of
                          None \<Rightarrow> None | Some d \<Rightarrow> Some (d @ ''/'')) of
        Inl e \<Rightarrow> Inl e
      | Inr bs \<Rightarrow>
          (case applyFilters env params (loadAll env bs) of
             Inl e \<Rightarrow> Inl e
           | Inr filtered \<Rightarrow> Inr (sort_js (compare_receivedAt env) filtered)))"

definition getWebhooks ::
  "'n runtime \<Rightarrow> ListWebhooksParams \<Rightarrow> container \<Rightarrow> error + 'n ListWebhooksResult" where
  "getWebhooks env params c =
     (let page = (case page_p params of None \<Rightarrow> Num 1 | Some p \<Rightarrow> p);
          limit = (case limit_p params of None \<Rightarrow> Num 10 | Some l \<Rightarrow> l)
      in case sortedFiltered env params c of
           Inl e \<Rightarrow> Inl e
         | Inr filtered \<Rightarrow>
             (let total = length filtered;
                  start = num_mul (num_sub page (Num 1)) limit;
                  data = slice filtered start (num_add start limit)
              in Inr \<lparr> data_r = data, total_r = total, page_r = page, limit_r = limit \<rparr>))"

section \<open>Lookup and deletion by id\<close>

text \<open>
  \<^verbatim>\<open>getWebhookById\<close>: the first listed blob whose name includes the id and that loads;
  a blob that fails to load is logged and the loop goes on.
\<close>

fun findById :: "'n runtime \<Rightarrow> string \<Rightarrow> blob list \<Rightarrow> 'n WebhookRequest option" where
  "findById env ident [] = None"
| "findById env ident (b # bs) =
     (if includes_str (name b) ident
      then (case load env b of
              Inl e \<Rightarrow> findById env ident bs
            | Inr w \<Rightarrow> Some w)
      else findById env ident bs)"

definition getWebhookById ::
  "'n runtime \<Rightarrow> string \<Rightarrow> container \<Rightarrow> error + 'n WebhookRequest option" where
  "getWebhookById env ident c =
     (case listBlobs c None of
        Inl e \<Rightarrow> Inl e
      | Inr bs \<Rightarrow> Inr (findById env ident bs))"

text \<open>
  \<^verbatim>\<open>deleteWebhook\<close>: the loop returns at the first listed blob whose name includes the
  id, with \<^verbatim>\<open>true\<close> when the store deleted it and \<^verbatim>\<open>false\<close> when the delete threw.
  The outcome records the keys a delete was requested for and the blobs left.
\<close>

record delete_outcome =
  deleted :: bool
  attempts :: "string list"
  remaining :: "blob list"

fun deleteFirst :: "string \<Rightarrow> blob list \<Rightarrow> blob list \<Rightarrow> delete_outcome" where
  "deleteFirst ident all [] = \<lparr> deleted = False, attempts = [], remaining = all \<rparr>"
| "deleteFirst ident all (b # bs) =
     (if includes_str (name b) ident
      then (if delete_ok b
            then \<lparr> deleted = True, attempts = [name b],
                   remaining = filter (\<lambda>x. name x \<noteq> name b) all \<rparr>
            else \<lparr> deleted = False, attempts = [name b], remaining = all \<rparr>)
      else deleteFirst ident all bs)"

definition deleteWebhook :: "string \<Rightarrow> container \<Rightarrow> error + delete_outcome" where
  "deleteWebhook ident c =
     (case listBlobs c None of
        Inl e \<Rightarrow> Inl e
      | Inr bs \<Rightarrow> Inr (deleteFirst ident (blobs c) bs))"

text \<open>The status of \<^verbatim>\<open>DELETE /api/webhooks/:id\<close>.\<close>

definition delete_route :: "string \<Rightarrow> container \<Rightarrow> nat" where
  "delete_route ident c =
     (case deleteWebhook ident c of
        Inl e \<Rightarrow> 500
      | Inr r \<Rightarrow> if \<not> deleted r then 404 else 204)"

section \<open>Dates and statistics\<close>

text \<open>
  \<^verbatim>\<open>getAvailableDates\<close> lists every blob (whatever its suffix) and never reads one:
  \<^verbatim>\<open>name.split('/')\<close> has more than one part when the name holds a slash, and its first
  part is the text before the first slash.
\<close>

definition date_parts :: "blob list \<Rightarrow> string list" where
  "date_parts bs =
     map (\<lambda>b. takeWhile (\<lambda>ch. ch \<noteq> CHR ''/'') (name b))
       (filter (\<lambda>b. CHR ''/'' \<in> set (name b)) bs)"

definition getAvailableDates :: "container \<Rightarrow> error + string list" where
  "getAvailableDates c =
     (case getContainerClient c of
        Inl e \<Rightarrow> Inl e
      | Inr cl \<Rightarrow> Inr (rev (sort (remdups (date_parts (listBlobsFlat cl None))))))"

record stats =
  total_s :: nat
  byMethod :: "string \<rightharpoonup> nat"
  byDate :: "string \<rightharpoonup> nat"

text \<open>
  \<^verbatim>\<open>m[k] = (m[k] || 0) + 1\<close> on a counter object. A key that names a property
  inherited from \<^verbatim>\<open>Object.prototype\<close> (such as \<^verbatim>\<open>constructor\<close>) is outside the model;
  an upper-cased method is never such a key.
\<close>

definition incr :: "(string \<rightharpoonup> nat) \<Rightarrow> string \<Rightarrow> (string \<rightharpoonup> nat)" where
  "incr m k = m(k \<mapsto> (case m k of None \<Rightarrow> 0 | Some n \<Rightarrow> n) + 1)"

text \<open>\<^verbatim>\<open>v.split('T')[0]\<close>: only a string has the method.\<close>

fun date_of :: "'n jsval \<Rightarrow> error + string" where
  "date_of (JStr s) = Inr (takeWhile (\<lambda>ch. ch \<noteq> CHR ''T'') s)"
| "date_of v = Inl TypeError"

text \<open>
  One turn of the statistics loop on the two counters. A throw leaves the \<^verbatim>\<open>try\<close> block
  where it happens: a record whose method is counted and whose \<^verbatim>\<open>receivedAt\<close> is not a
  string stays counted by method.
\<close>

definition count_blob ::
  "'n runtime \<Rightarrow> blob \<Rightarrow> (string \<rightharpoonup> nat) \<times> (string \<rightharpoonup> nat) \<Rightarrow>
     (string \<rightharpoonup> nat) \<times> (string \<rightharpoonup> nat)" where
  "count_blob env b acc =
     (case load env b of
        Inl e \<Rightarrow> acc
      | Inr webhook \<Rightarrow>
          (case toUpperCase (method_w webhook) of
             Inl e \<Rightarrow> acc
           | Inr m \<Rightarrow>
               (case date_of (receivedAt webhook) of
                  Inl e \<Rightarrow> (incr (fst acc) m, snd acc)
                | Inr d \<Rightarrow> (incr (fst acc) m, incr (snd acc) d))))"

fun count_blobs ::
  "'n runtime \<Rightarrow> blob list \<Rightarrow> (string \<rightharpoonup> nat) \<times> (string \<rightharpoonup> nat) \<Rightarrow>
     (string \<rightharpoonup> nat) \<times> (string \<rightharpoonup> nat)" where
  "count_blobs env [] acc = acc"
| "count_blobs env (b # bs) acc = count_blobs env bs (count_blob env b acc)"

definition getWebhookStats :: "'n runtime \<Rightarrow> container \<Rightarrow> error + stats" where
  "getWebhookStats env c =
     (case listBlobs c None of
        Inl e \<Rightarrow> Inl e
      | Inr bs \<Rightarrow>
          (let counts = count_blobs env bs (Map.empty, Map.empty)
           in Inr \<lparr> total_s = length bs, byMethod = fst counts, byDate = snd counts \<rparr>))"

section \<open>Vocabulary of the specification\<close>

text \<open>The field names of the stored, capitalised representation.\<close>

definition pascal_names :: "string list" where
  "pascal_names = [''Id'', ''ReceivedAt'', ''Method'', ''Path'', ''Headers'',
     ''QueryParameters'', ''RawBody'', ''ContentType'', ''SourceIp'']"

text \<open>
  A record as the interface \<^verbatim>\<open>WebhookRequest\<close> declares it: seven strings and two
  mappings from strings to strings.
\<close>

fun is_str :: "'n jsval \<Rightarrow> bool" where
  "is_str (JStr s) = True"
| "is_str v = False"

fun is_str_map :: "'n jsval \<Rightarrow> bool" where
  "is_str_map (JObj kvs) = list_all (\<lambda>kv. is_str (snd kv)) kvs"
| "is_str_map v = False"









text \<open>The blobs a query loads: the \<^verbatim>\<open>.json\<close> blobs under the date prefix.\<close>

definition candidates :: "ListWebhooksParams \<Rightarrow> container \<Rightarrow> blob list" where
  "candidates params c =
     filter (\<lambda>b. endsWith (name b) ''.json'')
       (case supplied (date_p params) of
          None \<Rightarrow> blobs c
        | Some d \<Rightarrow> filter (\<lambda>b. prefix (d @ ''/'') (name b)) (blobs c))"



text \<open>A blob whose content is not valid JSON, and the container without such blobs.\<close>

definition invalid_json :: "'n runtime \<Rightarrow> blob \<Rightarrow> bool" where
  "invalid_json env b =
     (case body b of Failed \<Rightarrow> False | Content s \<Rightarrow> JSON_parse env s = None)"

definition without_invalid :: "'n runtime \<Rightarrow> container \<Rightarrow> container" where
  "without_invalid env c = c\<lparr> blobs := filter (\<lambda>b. \<not> invalid_json env b) (blobs c) \<rparr>"


definition json_blobs :: "container \<Rightarrow> blob list" where
  "json_blobs c = filter (\<lambda>b. endsWith (name b) ''.json'') (blobs c)"

fun is_ok :: "error + 'a \<Rightarrow> bool" where
  "is_ok (Inl e) = False"
| "is_ok (Inr x) = True"




section \<open>Example data\<close>

text \<open>
  The answers of the run time on the texts and values of the examples: the listed JSON
  texts with the values they parse to (the text \<^verbatim>\<open>{oops\<close> does not parse), the listed
  timestamps with their epoch milliseconds (\<^verbatim>\<open>soon\<close> is an invalid date). The examples
  contain no number and convert no array or object to a string.
\<close>

definition text_abc1 :: string where
  \<open>text_abc1 =
     ''{"Id":"abc-1","ReceivedAt":"2026-01-16T09:00:00Z","Method":"POST","Path":"/hook"}''\<close>

definition text_abc :: string where
  \<open>text_abc =
     ''{"Id":"abc","ReceivedAt":"2026-01-16T10:00:00Z","Method":"GET","Path":"/hook"}''\<close>

definition text_soon :: string where
  \<open>text_soon = ''{"Id":"w-2","ReceivedAt":"soon","Method":"GET","Path":"/hook"}''\<close>

definition text_camel :: string where
  \<open>text_camel =
     ''{"id":"w-1","receivedAt":"2026-01-15T10:00:00Z","method":"GET","path":"/hook"}''\<close>

definition text_conv :: string where
  \<open>text_conv = ''{"conversation":{"id":"conv-123"}}''\<close>

definition text_conv_false :: string where
  \<open>text_conv_false = ''{"conversation":{"id":false}}''\<close>

definition example_parse :: "string \<Rightarrow> int jsval option" where
  "example_parse text =
     (if text = text_abc1 then
        Some (JObj [(''Id'', JStr ''abc-1''), (''ReceivedAt'', JStr ''2026-01-16T09:00:00Z''),
                    (''Method'', JStr ''POST''), (''Path'', JStr ''/hook'')])
      else if text = text_abc then
        Some (JObj [(''Id'', JStr ''abc''), (''ReceivedAt'', JStr ''2026-01-16T10:00:00Z''),
                    (''Method'', JStr ''GET''), (''Path'', JStr ''/hook'')])
      else if text = text_soon then
        Some (JObj [(''Id'', JStr ''w-2''), (''ReceivedAt'', JStr ''soon''),
                    (''Method'', JStr ''GET''), (''Path'', JStr ''/hook'')])
      else if text = text_camel then
        Some (JObj [(''id'', JStr ''w-1''), (''receivedAt'', JStr ''2026-01-15T10:00:00Z''),
                    (''method'', JStr ''GET''), (''path'', JStr ''/hook'')])
      else if text = text_conv then
        Some (JObj [(''conversation'', JObj [(''id'', JStr ''conv-123'')])])
      else if text = text_conv_false then
        Some (JObj [(''conversation'', JObj [(''id'', JBool False)])])
      else None)"

definition example_time :: "int jsval \<Rightarrow> int option" where
  "example_time v =
     (if v = JStr ''2026-01-16T09:00:00Z'' then Some 1768554000000
      else if v = JStr ''2026-01-16T10:00:00Z'' then Some 1768557600000
      else if v = JStr ''2026-01-15T10:00:00Z'' then Some 1768471200000
      else None)"

definition example_runtime :: "int runtime" where
  "example_runtime =
     \<lparr> JSON_parse = example_parse, ToString = (\<lambda>v. None),
       Date_getTime = example_time, num_falsy = (\<lambda>n. n = 0) \<rparr>"

definition blob_abc1 :: blob where
  "blob_abc1 = \<lparr> name = ''2026-01-16/abc-1.json'', body = Content text_abc1, delete_ok = True \<rparr>"

definition blob_abc :: blob where
  "blob_abc = \<lparr> name = ''2026-01-16/abc.json'', body = Content text_abc, delete_ok = True \<rparr>"

definition blob_soon :: blob where
  "blob_soon = \<lparr> name = ''2026-01-14/w-2.json'', body = Content text_soon, delete_ok = True \<rparr>"

definition blob_camel :: blob where
  "blob_camel = \<lparr> name = ''2026-01-15/w-1.json'', body = Content text_camel, delete_ok = True \<rparr>"

definition blob_bad :: blob where
  "blob_bad = \<lparr> name = ''2026-01-15/bad.json'', body = Content ''{oops'', delete_ok = True \<rparr>"

definition record_abc1 :: "int WebhookRequest" where
  "record_abc1 =
     \<lparr> id_w = JStr ''abc-1'', receivedAt = JStr ''2026-01-16T09:00:00Z'',
       method_w = JStr ''POST'', path = JStr ''/hook'', headers = JObj [],
       queryParameters = JObj [], rawBody = JStr [], contentType = JStr [],
       sourceIp = JStr [] \<rparr>"

definition record_abc :: "int WebhookRequest" where
  "record_abc =
     \<lparr> id_w = JStr ''abc'', receivedAt = JStr ''2026-01-16T10:00:00Z'',
       method_w = JStr ''GET'', path = JStr ''/hook'', headers = JObj [],
       queryParameters = JObj [], rawBody = JStr [], contentType = JStr [],
       sourceIp = JStr [] \<rparr>"

definition record_soon :: "int WebhookRequest" where
  "record_soon =
     \<lparr> id_w = JStr ''w-2'', receivedAt = JStr ''soon'',
       method_w = JStr ''GET'', path = JStr ''/hook'', headers = JObj [],
       queryParameters = JObj [], rawBody = JStr [], contentType = JStr [],
       sourceIp = JStr [] \<rparr>"

definition record_w1 :: "int WebhookRequest" where
  "record_w1 =
     \<lparr> id_w = JStr ''w-1'', receivedAt = JStr ''2026-01-15T10:00:00Z'',
       method_w = JStr ''GET'', path = JStr ''/hook'', headers = JObj [],
       queryParameters = JObj [], rawBody = JStr [], contentType = JStr [],
       sourceIp = JStr [] \<rparr>"

definition no_params :: ListWebhooksParams where
  "no_params =
     \<lparr> date_p = None, page_p = None, limit_p = None, method_p = None,
       sourceIp_p = None, search_p = None, conversationId_p = None \<rparr>"

definition store :: "blob list \<Rightarrow> container" where
  "store bs = \<lparr> connectionString = ''UseDevelopmentStorage=true'', blobs = bs \<rparr>"

text \<open>A blob the store refuses to delete, and a later blob whose key includes the same id.\<close>

definition blob_locked :: blob where
  "blob_locked = \<lparr> name = ''2026-01-16/abc-1.json'', body = Content text_abc1, delete_ok = False \<rparr>"

definition blob_later :: blob where
  "blob_later = \<lparr> name = ''2026-01-17/abc-1.json'', body = Content text_abc1, delete_ok = True \<rparr>"





section \<open>Evaluation of the examples\<close>

lemmas example_text_defs =
  text_abc1_def text_abc_def text_soon_def text_camel_def text_conv_def text_conv_false_def

lemma example_parse_simps:
  "example_parse text_abc1 = Some (JObj [(''Id'', JStr ''abc-1''), (''ReceivedAt'', JStr ''2026-01-16T09:00:00Z''),
                    (''Method'', JStr ''POST''), (''Path'', JStr ''/hook'')])"
  "example_parse text_abc = Some (JObj [(''Id'', JStr ''abc''), (''ReceivedAt'', JStr ''2026-01-16T10:00:00Z''),
                    (''Method'', JStr ''GET''), (''Path'', JStr ''/hook'')])"
  "example_parse text_soon = Some (JObj [(''Id'', JStr ''w-2''), (''ReceivedAt'', JStr ''soon''),
                    (''Method'', JStr ''GET''), (''Path'', JStr ''/hook'')])"
  "example_parse text_camel = Some (JObj [(''id'', JStr ''w-1''), (''receivedAt'', JStr ''2026-01-15T10:00:00Z''),
                    (''method'', JStr ''GET''), (''path'', JStr ''/hook'')])"
  "example_parse text_conv = Some (JObj [(''conversation'', JObj [(''id'', JStr ''conv-123'')])])"
  "example_parse text_conv_false = Some (JObj [(''conversation'', JObj [(''id'', JBool False)])])"
  "example_parse ''{oops'' = None"
  by (simp_all add: example_parse_def example_text_defs)

lemma example_loads:
  "load example_runtime blob_abc1 = Inr record_abc1"
  "load example_runtime blob_abc = Inr record_abc"
  "load example_runtime blob_soon = Inr record_soon"
  "load example_runtime blob_bad = Inl SyntaxError"
  by (simp_all add: load_def readBlobAsJson_def example_runtime_def example_parse_simps
      blob_abc1_def blob_abc_def blob_soon_def blob_bad_def transformWebhook_def or_else_def
      record_abc1_def record_abc_def record_soon_def)

lemma example_names:
  "name blob_abc1 = ''2026-01-16/abc-1.json''"
  "name blob_abc = ''2026-01-16/abc.json''"
  "name blob_soon = ''2026-01-14/w-2.json''"
  "name blob_bad = ''2026-01-15/bad.json''"
  "name blob_camel = ''2026-01-15/w-1.json''"
  by (simp_all add: blob_abc1_def blob_abc_def blob_soon_def blob_bad_def blob_camel_def)

lemma store_simps:
  "blobs (store bs) = bs" "connectionString (store bs) \<noteq> []"
  by (simp_all add: store_def)

lemma listBlobs_store:
  "listBlobs (store bs) None = Inr (filter (\<lambda>b. endsWith (name b) ''.json'') bs)"
  by (simp add: listBlobs_def getContainerClient_def store_def listBlobsFlat_def)

lemma example_json:
  "endsWith ''2026-01-16/abc-1.json'' ''.json''"
  "endsWith ''2026-01-16/abc.json'' ''.json''"
  "endsWith ''2026-01-14/w-2.json'' ''.json''"
  "endsWith ''2026-01-15/bad.json'' ''.json''"
  "endsWith ''2026-01-15/w-1.json'' ''.json''"
  by (simp_all add: endsWith_def suffix_to_prefix)

lemma example_delete_ok:
  "delete_ok blob_abc1" "delete_ok blob_abc" "delete_ok blob_soon" "delete_ok blob_bad"
  "delete_ok blob_camel"
  by (simp_all add: blob_abc1_def blob_abc_def blob_soon_def blob_bad_def blob_camel_def)

lemma readBlobAsJson_abc1:
  "readBlobAsJson example_runtime blob_abc1 =
     Inr (JObj [(''Id'', JStr ''abc-1''), (''ReceivedAt'', JStr ''2026-01-16T09:00:00Z''),
                (''Method'', JStr ''POST''), (''Path'', JStr ''/hook'')])"
  by (simp add: readBlobAsJson_def example_runtime_def example_parse_simps blob_abc1_def)

lemma json_blobs_store:
  "json_blobs (store bs) = filter (\<lambda>b. endsWith (name b) ''.json'') bs"
  by (simp add: json_blobs_def store_simps)




lemma invalid_json_bad: "invalid_json example_runtime blob_bad"
  by (simp add: invalid_json_def blob_bad_def example_runtime_def example_parse_simps)

lemma valid_json_abc: "\<not> invalid_json example_runtime blob_abc"
  by (simp add: invalid_json_def blob_abc_def example_runtime_def example_parse_simps)

lemma without_invalid_store:
  "without_invalid env (store bs) = store (filter (\<lambda>b. \<not> invalid_json env b) bs)"
  by (simp add: without_invalid_def store_def)

section \<open>Facts about the model\<close>



lemma listBlobs_all:
  "connectionString c \<noteq> [] \<Longrightarrow> listBlobs c None = Inr (json_blobs c)"
  by (simp add: listBlobs_def getContainerClient_def listBlobsFlat_def json_blobs_def)

lemma deleteFirst_skip:
  "list_all (\<lambda>x. \<not> includes_str (name x) ident) pre \<Longrightarrow>
     deleteFirst ident all (pre @ rest) = deleteFirst ident all rest"
  by (induction pre) simp_all

lemma deleteFirst_no_match:
  "list_all (\<lambda>x. \<not> includes_str (name x) ident) bs \<Longrightarrow>
     deleteFirst ident all bs = \<lparr> deleted = False, attempts = [], remaining = all \<rparr>"
  by (induction bs) simp_all

lemma load_invalid_json: "invalid_json env b \<Longrightarrow> load env b = Inl SyntaxError"
  by (simp add: invalid_json_def load_def readBlobAsJson_def split: download.splits)

lemma loadAll_skips_invalid:
  "loadAll env (filter (\<lambda>b. \<not> invalid_json env b) bs) = loadAll env bs"
  by (induction bs) (simp_all add: load_invalid_json split: sum.splits)

lemma count_blobs_skips_invalid:
  "count_blobs env (filter (\<lambda>b. \<not> invalid_json env b) bs) acc = count_blobs env bs acc"
  by (induction bs arbitrary: acc) (simp_all add: count_blob_def load_invalid_json)

lemma without_invalid_simps:
  "connectionString (without_invalid env c) = connectionString c"
  "blobs (without_invalid env c) = filter (\<lambda>b. \<not> invalid_json env b) (blobs c)"
  by (simp_all add: without_invalid_def)

lemma json_blobs_without_invalid:
  "json_blobs (without_invalid env c) = filter (\<lambda>b. \<not> invalid_json env b) (json_blobs c)"
  by (simp add: json_blobs_def without_invalid_simps conj_commute)

lemma candidates_without_invalid:
  "candidates params (without_invalid env c) =
     filter (\<lambda>b. \<not> invalid_json env b) (candidates params c)"
  by (auto simp add: candidates_def without_invalid_simps conj_commute split: option.splits
      intro: filter_cong)

lemma listBlobs_candidates:
  "listBlobs c (case supplied (date_p params) of None \<Rightarrow> None | Some d \<Rightarrow> Some (d @ ''/'')) =
     (if connectionString c = [] then Inl ConfigurationError else Inr (candidates params c))"
  by (simp add: listBlobs_def getContainerClient_def listBlobsFlat_def candidates_def
      split: option.splits)

lemma sortedFiltered_candidates:
  "sortedFiltered env params c =
     (if connectionString c = [] then Inl ConfigurationError
      else case applyFilters env params (loadAll env (candidates params c)) of
             Inl e \<Rightarrow> Inl e
           | Inr filtered \<Rightarrow> Inr (sort_js (compare_receivedAt env) filtered))"
  by (simp add: sortedFiltered_def listBlobs_candidates)

lemma getWebhookStats_configured:
  "getWebhookStats env c =
     (if connectionString c = [] then Inl ConfigurationError
      else Inr \<lparr> total_s = length (json_blobs c),
                 byMethod = fst (count_blobs env (json_blobs c) (Map.empty, Map.empty)),
                 byDate = snd (count_blobs env (json_blobs c) (Map.empty, Map.empty)) \<rparr>)"
  by (simp add: getWebhookStats_def Let_def listBlobs_def getContainerClient_def
      listBlobsFlat_def json_blobs_def)

lemma getAvailableDates_configured:
  "getAvailableDates c =
     (if connectionString c = [] then Inl ConfigurationError
      else Inr (rev (sort (remdups (date_parts (blobs c))))))"
  by (simp add: getAvailableDates_def getContainerClient_def listBlobsFlat_def)



























lemma is_str_map_cases:
  "is_str_map v \<Longrightarrow> \<exists>kvs. v = JObj kvs \<and> list_all (\<lambda>kv. is_str (snd kv)) kvs"
  by (cases v) simp_all
























section \<open>Lookup and deletion by id (C1)\<close>

text \<open>
  C1 says that lookup and deletion compare the \<^verbatim>\<open>id\<close> field of each loaded record with
  the requested value and never use the storage key. The service tests whether the key
  includes the requested id as a substring. In a container holding the record
  \<^verbatim>\<open>abc-1\<close> under \<^verbatim>\<open>2026-01-16/abc-1.json\<close> and the record \<^verbatim>\<open>abc\<close> under
  \<^verbatim>\<open>2026-01-16/abc.json\<close>, the lookup of \<^verbatim>\<open>abc\<close> returns the record whose id is
  \<^verbatim>\<open>abc-1\<close>, and the deletion of \<^verbatim>\<open>abc\<close> removes the blob of \<^verbatim>\<open>abc-1\<close> and leaves the
  blob of \<^verbatim>\<open>abc\<close>.
\<close>

theorem lookup_by_key_substring:
  "getWebhookById example_runtime ''abc'' (store [blob_abc1, blob_abc]) = Inr (Some record_abc1)
   \<and> id_w record_abc1 \<noteq> JStr ''abc''
   \<and> load example_runtime blob_abc = Inr record_abc
   \<and> id_w record_abc = JStr ''abc''
   \<and> deleteWebhook ''abc'' (store [blob_abc1, blob_abc])
       = Inr \<lparr> deleted = True, attempts = [''2026-01-16/abc-1.json''], remaining = [blob_abc] \<rparr>"
  by (simp add: getWebhookById_def deleteWebhook_def listBlobs_store example_json example_loads
      example_names example_delete_ok record_abc1_def record_abc_def store_simps)

section \<open>Statistics (C2)\<close>




section \<open>The record loader (C3)\<close>

text \<open>
  C3, as the loader behaves: for every blob whose content is a JSON object, the loader
  returns a record and never fails. It copies \<^verbatim>\<open>Id\<close>, \<^verbatim>\<open>ReceivedAt\<close>, \<^verbatim>\<open>Method\<close> and
  \<^verbatim>\<open>Path\<close>, keeps the mappings and strings stored under \<^verbatim>\<open>Headers\<close>,
  \<^verbatim>\<open>QueryParameters\<close>, \<^verbatim>\<open>RawBody\<close>, \<^verbatim>\<open>ContentType\<close> and \<^verbatim>\<open>SourceIp\<close>, and puts the empty
  mapping or the empty string where one of these five is missing. Only the capitalised
  names are read: an object that has none of them loads as the record without id,
  time, method and path.
\<close>

theorem loader_reads_capitalised_fields:
  assumes "readBlobAsJson env b = Inr (JObj kvs)"
  shows "\<exists>w. load env b = Inr w
     \<and> id_w w = get_prop_opt (JObj kvs) ''Id''
     \<and> receivedAt w = get_prop_opt (JObj kvs) ''ReceivedAt''
     \<and> method_w w = get_prop_opt (JObj kvs) ''Method''
     \<and> path w = get_prop_opt (JObj kvs) ''Path''
     \<and> (map_of kvs ''Headers'' = None \<longrightarrow> headers w = JObj [])
     \<and> (\<forall>h. map_of kvs ''Headers'' = Some (JObj h) \<longrightarrow> headers w = JObj h)
     \<and> (map_of kvs ''QueryParameters'' = None \<longrightarrow> queryParameters w = JObj [])
     \<and> (\<forall>q. map_of kvs ''QueryParameters'' = Some (JObj q) \<longrightarrow> queryParameters w = JObj q)
     \<and> (map_of kvs ''RawBody'' = None \<longrightarrow> rawBody w = JStr [])
     \<and> (\<forall>s. map_of kvs ''RawBody'' = Some (JStr s) \<longrightarrow> rawBody w = JStr s)
     \<and> (map_of kvs ''ContentType'' = None \<longrightarrow> contentType w = JStr [])
     \<and> (\<forall>s. map_of kvs ''ContentType'' = Some (JStr s) \<longrightarrow> contentType w = JStr s)
     \<and> (map_of kvs ''SourceIp'' = None \<longrightarrow> sourceIp w = JStr [])
     \<and> (\<forall>s. map_of kvs ''SourceIp'' = Some (JStr s) \<longrightarrow> sourceIp w = JStr s)
     \<and> (list_all (\<lambda>k. map_of kvs k = None) pascal_names \<longrightarrow>
           w = \<lparr> id_w = JUndefined, receivedAt = JUndefined, method_w = JUndefined,
                 path = JUndefined, headers = JObj [], queryParameters = JObj [],
                 rawBody = JStr [], contentType = JStr [], sourceIp = JStr [] \<rparr>)"
  using assms
  by (auto simp add: load_def transformWebhook_def or_else_def pascal_names_def)

text \<open>The blob of \<^verbatim>\<open>abc-1\<close>, stored with capitalised names and no optional field.\<close>

theorem loader_reads_capitalised_fields_witness:
  "readBlobAsJson example_runtime blob_abc1 =
     Inr (JObj [(''Id'', JStr ''abc-1''), (''ReceivedAt'', JStr ''2026-01-16T09:00:00Z''),
                (''Method'', JStr ''POST''), (''Path'', JStr ''/hook'')])
   \<and> (\<exists>w. load example_runtime blob_abc1 = Inr w \<and> id_w w = JStr ''abc-1''
          \<and> method_w w = JStr ''POST'' \<and> headers w = JObj [] \<and> queryParameters w = JObj []
          \<and> rawBody w = JStr [] \<and> contentType w = JStr [] \<and> sourceIp w = JStr [])"
  using loader_reads_capitalised_fields [OF readBlobAsJson_abc1] readBlobAsJson_abc1
  by auto

text \<open>
  C3 as stated fails on a blob that uses the lower-camel-case names: the loader does not
  produce the canonical record \<^verbatim>\<open>w-1\<close>, it produces a record whose id, time, method and
  path are \<^verbatim>\<open>undefined\<close>.
\<close>

theorem loader_ignores_camel_case_counterexample:
  "readBlobAsJson example_runtime blob_camel =
     Inr (JObj [(''id'', JStr ''w-1''), (''receivedAt'', JStr ''2026-01-15T10:00:00Z''),
                (''method'', JStr ''GET''), (''path'', JStr ''/hook'')])
   \<and> load example_runtime blob_camel =
     Inr \<lparr> id_w = JUndefined, receivedAt = JUndefined, method_w = JUndefined,
           path = JUndefined, headers = JObj [], queryParameters = JObj [],
           rawBody = JStr [], contentType = JStr [], sourceIp = JStr [] \<rparr>
   \<and> load example_runtime blob_camel \<noteq> Inr record_w1"
  by (simp add: load_def readBlobAsJson_def example_runtime_def example_parse_simps
      blob_camel_def transformWebhook_def or_else_def record_w1_def)

section \<open>Order of the results (C4)\<close>




section \<open>Total and filters (C5)\<close>



section \<open>Pagination (C6)\<close>



section \<open>Free-text search (C7)\<close>



section \<open>Conversation filter (C8)\<close>




section \<open>Blobs that are not valid JSON (C9)\<close>

text \<open>
  C9, as the service behaves: a blob whose content is not valid JSON changes nothing in
  the answer of a query and nothing in \<^verbatim>\<open>byMethod\<close> and \<^verbatim>\<open>byDate\<close>; the statistics and
  the date listing fail only when the connection is not configured, and a query fails
  exactly when it fails without the blob. The blob is still counted in \<^verbatim>\<open>total\<close> of the
  statistics, and the date listing, which reads keys only, still lists the prefix of
  its key.
\<close>

theorem invalid_json_is_skipped:
  "getWebhooks env params (without_invalid env c) = getWebhooks env params c
   \<and> map_sum id byMethod (getWebhookStats env (without_invalid env c))
       = map_sum id byMethod (getWebhookStats env c)
   \<and> map_sum id byDate (getWebhookStats env (without_invalid env c))
       = map_sum id byDate (getWebhookStats env c)
   \<and> map_sum id (\<lambda>st. total_s st + length (filter (invalid_json env) (json_blobs c)))
         (getWebhookStats env (without_invalid env c))
       = map_sum id total_s (getWebhookStats env c)
   \<and> is_ok (getWebhookStats env c) = (connectionString c \<noteq> [])
   \<and> is_ok (getAvailableDates c) = (connectionString c \<noteq> [])
   \<and> (\<forall>b \<in> set (blobs c). connectionString c \<noteq> [] \<longrightarrow> CHR ''/'' \<in> set (name b) \<longrightarrow>
         (\<exists>ds. getAvailableDates c = Inr ds
            \<and> takeWhile (\<lambda>ch. ch \<noteq> CHR ''/'') (name b) \<in> set ds))"
proof -
  have q: "getWebhooks env params (without_invalid env c) = getWebhooks env params c"
    by (simp add: getWebhooks_def sortedFiltered_candidates candidates_without_invalid
        loadAll_skips_invalid without_invalid_simps)
  have m: "map_sum id byMethod (getWebhookStats env (without_invalid env c))
       = map_sum id byMethod (getWebhookStats env c)"
    by (simp add: getWebhookStats_configured json_blobs_without_invalid
        count_blobs_skips_invalid without_invalid_simps)
  have d: "map_sum id byDate (getWebhookStats env (without_invalid env c))
       = map_sum id byDate (getWebhookStats env c)"
    by (simp add: getWebhookStats_configured json_blobs_without_invalid
        count_blobs_skips_invalid without_invalid_simps)
  have len: "length (filter (\<lambda>b. \<not> invalid_json env b) bs) + length (filter (invalid_json env) bs)
      = length bs" for bs
    by (induction bs) simp_all
  have t: "map_sum id (\<lambda>st. total_s st + length (filter (invalid_json env) (json_blobs c)))
         (getWebhookStats env (without_invalid env c))
       = map_sum id total_s (getWebhookStats env c)"
    by (simp add: getWebhookStats_configured json_blobs_without_invalid without_invalid_simps len)
  have s: "is_ok (getWebhookStats env c) = (connectionString c \<noteq> [])"
    by (simp add: getWebhookStats_configured)
  have a: "is_ok (getAvailableDates c) = (connectionString c \<noteq> [])"
    by (simp add: getAvailableDates_configured)
  have l: "\<exists>ds. getAvailableDates c = Inr ds
            \<and> takeWhile (\<lambda>ch. ch \<noteq> CHR ''/'') (name b) \<in> set ds"
    if "b \<in> set (blobs c)" "connectionString c \<noteq> []" "CHR ''/'' \<in> set (name b)" for b
    using that by (simp add: getAvailableDates_configured date_parts_def)
  from q m d t s a l show ?thesis
    by blast
qed

text \<open>A container with one record and one blob that does not parse.\<close>

theorem invalid_json_is_skipped_witness:
  "getWebhooks example_runtime no_params (store [blob_abc]) =
     getWebhooks example_runtime no_params (store [blob_abc, blob_bad])
   \<and> map_sum id byMethod (getWebhookStats example_runtime (store [blob_abc]))
       = map_sum id byMethod (getWebhookStats example_runtime (store [blob_abc, blob_bad]))
   \<and> map_sum id byDate (getWebhookStats example_runtime (store [blob_abc]))
       = map_sum id byDate (getWebhookStats example_runtime (store [blob_abc, blob_bad]))
   \<and> is_ok (getWebhookStats example_runtime (store [blob_abc, blob_bad]))
   \<and> is_ok (getAvailableDates (store [blob_abc, blob_bad]))
   \<and> (\<exists>ds. getAvailableDates (store [blob_abc, blob_bad]) = Inr ds \<and> ''2026-01-15'' \<in> set ds)"
proof -
  let ?c = "store [blob_abc, blob_bad]"
  have w: "without_invalid example_runtime ?c = store [blob_abc]"
    by (simp add: without_invalid_store invalid_json_bad valid_json_abc)
  have b: "blob_bad \<in> set (blobs ?c)" "connectionString ?c \<noteq> []"
    "CHR ''/'' \<in> set (name blob_bad)"
    "takeWhile (\<lambda>ch. ch \<noteq> CHR ''/'') (name blob_bad) = ''2026-01-15''"
    by (simp_all add: store_simps example_names)
  from invalid_json_is_skipped [of example_runtime no_params ?c] b show ?thesis
    unfolding w by fastforce
qed

text \<open>
  C9 as stated fails for the date listing and for \<^verbatim>\<open>total\<close>: with the unparseable blob
  alone in the container, its date is listed and it is counted, and without it the
  listing is empty and the count is 0.
\<close>

theorem invalid_json_listed_by_dates_counterexample:
  "invalid_json example_runtime blob_bad
   \<and> getAvailableDates (store [blob_bad]) = Inr [''2026-01-15'']
   \<and> getAvailableDates (without_invalid example_runtime (store [blob_bad])) = Inr []
   \<and> map_sum id total_s (getWebhookStats example_runtime (store [blob_bad])) = Inr 1
   \<and> map_sum id total_s
        (getWebhookStats example_runtime (without_invalid example_runtime (store [blob_bad])))
       = Inr 0"
  by (simp add: invalid_json_bad without_invalid_store getAvailableDates_configured
      getWebhookStats_configured json_blobs_store store_simps date_parts_def example_names
      example_json)

section \<open>A delete that the store refuses (C10)\<close>

text \<open>
  C10: when the first listed blob whose key includes the id cannot be deleted,
  \<^verbatim>\<open>deleteWebhook\<close> returns \<^verbatim>\<open>false\<close> after that single delete request, with every blob
  still in place; it returns the same \<^verbatim>\<open>false\<close> when no key includes the id, and the
  route answers 404 in both cases.
\<close>

theorem failed_delete_is_not_found:
  assumes "connectionString c \<noteq> []"
    and "json_blobs c = pre @ b # post"
    and "list_all (\<lambda>x. \<not> includes_str (name x) ident) pre"
    and "includes_str (name b) ident"
    and "\<not> delete_ok b"
  shows "deleteWebhook ident c =
           Inr \<lparr> deleted = False, attempts = [name b], remaining = blobs c \<rparr>
     \<and> delete_route ident c = 404
     \<and> (\<forall>c'. connectionString c' \<noteq> [] \<longrightarrow>
           list_all (\<lambda>x. \<not> includes_str (name x) ident) (json_blobs c') \<longrightarrow>
           map_sum id deleted (deleteWebhook ident c') = map_sum id deleted (deleteWebhook ident c)
           \<and> delete_route ident c' = delete_route ident c)"
proof -
  have run: "deleteWebhook ident c =
      Inr \<lparr> deleted = False, attempts = [name b], remaining = blobs c \<rparr>"
    using assms by (simp add: deleteWebhook_def listBlobs_all deleteFirst_skip)
  then have route: "delete_route ident c = 404"
    by (simp add: delete_route_def)
  have none: "deleteWebhook ident c' =
      Inr \<lparr> deleted = False, attempts = [], remaining = blobs c' \<rparr>"
    if "connectionString c' \<noteq> []"
      and "list_all (\<lambda>x. \<not> includes_str (name x) ident) (json_blobs c')" for c'
    using that by (simp add: deleteWebhook_def listBlobs_all deleteFirst_no_match)
  show ?thesis
    using run route none by (simp add: delete_route_def)
qed

text \<open>
  The store refuses to delete \<^verbatim>\<open>2026-01-16/abc-1.json\<close>; a later key includes the id
  too.
\<close>

theorem failed_delete_is_not_found_witness:
  "deleteWebhook ''abc-1'' (store [blob_abc, blob_locked, blob_later]) =
     Inr \<lparr> deleted = False, attempts = [''2026-01-16/abc-1.json''],
           remaining = [blob_abc, blob_locked, blob_later] \<rparr>
   \<and> delete_route ''abc-1'' (store [blob_abc, blob_locked, blob_later]) = 404
   \<and> delete_route ''abc-1'' (store [blob_abc]) = 404"
proof -
  let ?c = "store [blob_abc, blob_locked, blob_later]"
  have names: "name blob_locked = ''2026-01-16/abc-1.json''"
    "name blob_later = ''2026-01-17/abc-1.json''"
    by (simp_all add: blob_locked_def blob_later_def)
  have later: "endsWith ''2026-01-17/abc-1.json'' ''.json''"
    by (simp add: endsWith_def suffix_to_prefix)
  have 1: "connectionString ?c \<noteq> []"
    by (simp add: store_simps)
  have 2: "json_blobs ?c = [blob_abc] @ blob_locked # [blob_later]"
    by (simp add: json_blobs_store example_names names example_json later)
  have 3: "list_all (\<lambda>x. \<not> includes_str (name x) ''abc-1'') [blob_abc]"
    by (simp add: example_names)
  have 4: "includes_str (name blob_locked) ''abc-1''"
    by (simp add: names)
  have 5: "\<not> delete_ok blob_locked"
    by (simp add: blob_locked_def)
  have 6: "connectionString (store [blob_abc]) \<noteq> []"
    by (simp add: store_simps)
  have 7: "list_all (\<lambda>x. \<not> includes_str (name x) ''abc-1'') (json_blobs (store [blob_abc]))"
    by (simp add: json_blobs_store example_names example_json)
  from failed_delete_is_not_found [OF 1 2 3 4 5] 6 7 show ?thesis
    by (simp add: names store_simps)
qed

end
